theory Spec2Isabelle
  imports Complex_Main
begin

section \<open>Shared conventions\<close>

text \<open>
  JavaScript numbers are idealised as \<^typ>\<open>real\<close>: rounding, NaN and the infinities are
  outside the model. A \<^verbatim>\<open>Float32Array\<close> holding particle data is a list of reals; the
  three.js \<^verbatim>\<open>BufferAttribute\<close> accessors with \<^verbatim>\<open>itemSize = 3\<close> read and write the flat
  array at \<^verbatim>\<open>i * 3\<close>, \<^verbatim>\<open>i * 3 + 1\<close> and \<^verbatim>\<open>i * 3 + 2\<close>, and \<^verbatim>\<open>count\<close> is the length divided
  by 3 (every array of the program has \<^verbatim>\<open>n * 3\<close> entries). A write outside a typed array
  is ignored, as \<^term>\<open>list_update\<close> does. A read outside an array (\<^verbatim>\<open>undefined\<close>, and NaN in
  arithmetic) has no counterpart here: every pool is created with position and velocity
  arrays of one length, and a theorem that depends on a value read bounds the index.

  \<^verbatim>\<open>Math.random()\<close> is an explicit source \<open>rand :: nat \<Rightarrow> real\<close>: the k-th call of a run
  returns \<open>rand k\<close>, and the simulation state counts the calls made so far.
\<close>

type_synonym buffer = "real list"

type_synonym random_source = "nat \<Rightarrow> real"

definition count :: "buffer \<Rightarrow> nat" where
  "count a = length a div 3"

definition getX :: "buffer \<Rightarrow> nat \<Rightarrow> real" where
  "getX a i = a ! (i * 3)"

definition getY :: "buffer \<Rightarrow> nat \<Rightarrow> real" where
  "getY a i = a ! (i * 3 + 1)"

definition getZ :: "buffer \<Rightarrow> nat \<Rightarrow> real" where
  "getZ a i = a ! (i * 3 + 2)"

definition setX :: "buffer \<Rightarrow> nat \<Rightarrow> real \<Rightarrow> buffer" where
  "setX a i v = a[i * 3 := v]"

definition setY :: "buffer \<Rightarrow> nat \<Rightarrow> real \<Rightarrow> buffer" where
  "setY a i v = a[i * 3 + 1 := v]"

definition setZ :: "buffer \<Rightarrow> nat \<Rightarrow> real \<Rightarrow> buffer" where
  "setZ a i v = a[i * 3 + 2 := v]"

text \<open>
  \<^verbatim>\<open>xs[Math.floor(Math.random() * xs.length)]\<close>, the expression that picks a random
  element; \<open>None\<close> stands for \<^verbatim>\<open>undefined\<close>, the value of an index outside
  the array. \<open>k\<close> is the number of the call of \<^verbatim>\<open>Math.random()\<close>.
\<close>

definition randomElement :: "random_source \<Rightarrow> nat \<Rightarrow> 'a list \<Rightarrow> 'a option" where
  "randomElement rand k xs =
     (let idx = \<lfloor>rand k * real (length xs)\<rfloor>
      in if 0 \<le> idx \<and> nat idx < length xs then Some (xs ! nat idx) else None)"

record vector3 =
  vec_x :: real
  vec_y :: real
  vec_z :: real

datatype js_error = TypeError

section \<open>old-script.js: the cycle state machine and its particle updates\<close>

datatype phase = EVAPORATION | CONDENSATION | PRECIPITATION | COLLECTION

text \<open>\<^verbatim>\<open>this.cycleDurations\<close>, in seconds.\<close>

fun cycleDurations :: "phase \<Rightarrow> real" where
  "cycleDurations EVAPORATION = 15"
| "cycleDurations CONDENSATION = 10"
| "cycleDurations PRECIPITATION = 20"
| "cycleDurations COLLECTION = 8"

text \<open>
  The fields of \<^verbatim>\<open>WaterCycleSimulation\<close> that the update logic reads or writes.
  \<open>stageShown\<close> records every call of \<^verbatim>\<open>updateCycleStage\<close> by the stage it displays: this is
  the phase-change notification the page observes. All cloud sprites share one material,
  hence one opacity. The runoff pool is created and never updated.
\<close>

record simulation =
  temperature :: real
  windSpeed :: real
  cycleState :: phase
  cycleTimer :: real
  stageShown :: "phase list"
  clouds :: "vector3 list"
  cloudOpacity :: real
  evaporationPositions :: buffer
  evaporationVelocities :: buffer
  evaporationOpacity :: real
  rainPositions :: buffer
  rainVelocities :: buffer
  rainOpacity :: real
  runoffPositions :: buffer
  randomCalls :: nat

definition updateCycleStage :: "simulation \<Rightarrow> simulation" where
  "updateCycleStage s = s\<lparr>stageShown := stageShown s @ [cycleState s]\<rparr>"

text \<open>The body of the loop of \<^verbatim>\<open>updateEvaporation\<close> for particle \<open>i\<close>.\<close>

definition evaporationParticle :: "real \<Rightarrow> buffer \<Rightarrow> nat \<Rightarrow> buffer \<Rightarrow> buffer" where
  "evaporationParticle temp velocities i positions =
     (let p1 = setY positions i (getY positions i + velocities ! (i * 3 + 1) * (1 + temp / 15))
      in if getY p1 i > 30 then setY p1 i 0.5 else p1)"

text \<open>\<^verbatim>\<open>for (let i = 0; i < n; i++)\<close>: particles \<open>0 .. n - 1\<close> in order.\<close>

primrec evaporationLoop :: "real \<Rightarrow> buffer \<Rightarrow> nat \<Rightarrow> buffer \<Rightarrow> buffer" where
  "evaporationLoop temp velocities 0 positions = positions"
| "evaporationLoop temp velocities (Suc n) positions =
     evaporationParticle temp velocities n (evaporationLoop temp velocities n positions)"

definition updateEvaporation :: "bool \<Rightarrow> real \<Rightarrow> simulation \<Rightarrow> simulation" where
  "updateEvaporation isActive progress s =
     (let s1 = s\<lparr>evaporationOpacity := (if isActive then sin (progress * pi) * 0.5 else 0)\<rparr>
      in if \<not> isActive then s1
         else s1\<lparr>evaporationPositions :=
                   evaporationLoop (temperature s1) (evaporationVelocities s1)
                     (count (evaporationPositions s1)) (evaporationPositions s1)\<rparr>)"

text \<open>
  A velocity array with its x and z components set to 0 and its y components kept: what
  the pool would hold had \<^verbatim>\<open>createEvaporationParticles\<close> allocated no horizontal velocity.
\<close>

definition clearXZ :: "buffer \<Rightarrow> buffer" where
  "clearXZ a = map (\<lambda>k. if k mod 3 = 1 then a ! k else 0) [0..<length a]"

text \<open>\<^verbatim>\<open>forEach\<close> over the cloud sprites: with no sprite the material is not touched.\<close>

definition updateCondensation :: "bool \<Rightarrow> real \<Rightarrow> simulation \<Rightarrow> simulation" where
  "updateCondensation isActive progress s =
     (if clouds s = [] then s else s\<lparr>cloudOpacity := 0.6 + sin (progress * pi) * 0.4\<rparr>)"

text \<open>
  The recycle of rain particle \<open>i\<close> (both branches of the source run the same three
  statements). \<^verbatim>\<open>children[Math.floor(Math.random() * children.length)]\<close> is \<^verbatim>\<open>undefined\<close>
  when the index is not one of the array, and \<^verbatim>\<open>cloud.position\<close> then throws a TypeError;
  the state is returned as it is at the throw.
\<close>

definition rainRecycle :: "random_source \<Rightarrow> nat \<Rightarrow> simulation \<Rightarrow> js_error option \<times> simulation" where
  "rainRecycle rand i s =
     (let k = randomCalls s
      in case randomElement rand k (clouds s) of
           None \<Rightarrow> (Some TypeError, s\<lparr>randomCalls := k + 1\<rparr>)
         | Some cloud \<Rightarrow>
             (let p1 = setX (rainPositions s) i (vec_x cloud + (rand (k + 1) - 0.5) * 10);
                  p2 = setY p1 i (vec_y cloud);
                  p3 = setZ p2 i (vec_z cloud + (rand (k + 2) - 0.5) * 10)
              in (None, s\<lparr>rainPositions := p3, randomCalls := k + 3\<rparr>)))"

text \<open>
  The body of the loop of \<^verbatim>\<open>updatePrecipitation\<close>. \<open>raycast x z\<close> stands for
  \<^verbatim>\<open>raycaster.intersectObject(this.objects.terrain)\<close> with the ray cast down from
  \<open>(x, 50, z)\<close>: the heights \<^verbatim>\<open>point.y\<close> of the intersections, nearest first.
\<close>

definition rainParticle ::
  "(real \<Rightarrow> real \<Rightarrow> real list) \<Rightarrow> random_source \<Rightarrow> nat \<Rightarrow> simulation \<Rightarrow> js_error option \<times> simulation" where
  "rainParticle raycast rand i s =
     (let p1 = setX (rainPositions s) i (getX (rainPositions s) i + windSpeed s / 50);
          p2 = setY p1 i (getY p1 i + rainVelocities s ! (i * 3 + 1));
          s1 = s\<lparr>rainPositions := p2\<rparr>;
          intersects = raycast (getX p2 i) (getZ p2 i)
      in if intersects \<noteq> [] \<and> getY p2 i < hd intersects then rainRecycle rand i s1
         else if getY p2 i < - 10 then rainRecycle rand i s1
         else (None, s1))"

text \<open>The loop stops at the first particle whose update throws.\<close>

primrec rainLoop ::
  "(real \<Rightarrow> real \<Rightarrow> real list) \<Rightarrow> random_source \<Rightarrow> nat \<Rightarrow> simulation \<Rightarrow> js_error option \<times> simulation" where
  "rainLoop raycast rand 0 s = (None, s)"
| "rainLoop raycast rand (Suc n) s =
     (case rainLoop raycast rand n s of
        (Some e, s') \<Rightarrow> (Some e, s')
      | (None, s') \<Rightarrow> rainParticle raycast rand n s')"

definition updatePrecipitation ::
  "(real \<Rightarrow> real \<Rightarrow> real list) \<Rightarrow> random_source \<Rightarrow> bool \<Rightarrow> real \<Rightarrow> simulation
     \<Rightarrow> js_error option \<times> simulation" where
  "updatePrecipitation raycast rand isActive progress s =
     (let s1 = s\<lparr>rainOpacity := (if isActive then sin (progress * pi) * 0.7 else 0)\<rparr>
      in if \<not> isActive then (None, s1)
         else rainLoop raycast rand (count (rainPositions s1)) s1)"

definition updateCollection :: "bool \<Rightarrow> real \<Rightarrow> simulation \<Rightarrow> simulation" where
  "updateCollection isActive progress s = s"

text \<open>
  The first half of \<^verbatim>\<open>updateWaterCycle\<close>, up to \<^verbatim>\<open>const progress = ...\<close>: the new state and
  the value of the local \<^verbatim>\<open>progress\<close>. \<^verbatim>\<open>currentDuration\<close> is read before the switch, so
  \<^verbatim>\<open>progress\<close> divides by the duration of the phase the call started in.
\<close>

definition cycleClock :: "real \<Rightarrow> simulation \<Rightarrow> simulation \<times> real" where
  "cycleClock delta s =
     (let s1 = s\<lparr>cycleTimer := cycleTimer s + delta\<rparr>;
          currentDuration = cycleDurations (cycleState s1);
          s2 = (if cycleTimer s1 > currentDuration then
                  updateCycleStage
                    (s1\<lparr>cycleTimer := 0,
                        cycleState := (case cycleState s1 of
                                         EVAPORATION \<Rightarrow> CONDENSATION
                                       | CONDENSATION \<Rightarrow> PRECIPITATION
                                       | PRECIPITATION \<Rightarrow> COLLECTION
                                       | COLLECTION \<Rightarrow> EVAPORATION)\<rparr>)
                else s1)
      in (s2, cycleTimer s2 / currentDuration))"

text \<open>
  \<^verbatim>\<open>updateWaterCycle(delta)\<close>. An exception of \<^verbatim>\<open>updatePrecipitation\<close> leaves the function
  before \<^verbatim>\<open>updateCollection\<close>; the fields keep what was written until then.
\<close>

definition updateWaterCycle ::
  "(real \<Rightarrow> real \<Rightarrow> real list) \<Rightarrow> random_source \<Rightarrow> real \<Rightarrow> simulation
     \<Rightarrow> js_error option \<times> simulation" where
  "updateWaterCycle raycast rand delta s =
     (let (s1, progress) = cycleClock delta s;
          s2 = updateEvaporation (cycleState s1 = EVAPORATION) progress s1;
          s3 = updateCondensation (cycleState s2 = CONDENSATION) progress s2
      in case updatePrecipitation raycast rand (cycleState s3 = PRECIPITATION) progress s3 of
           (Some e, s4) \<Rightarrow> (Some e, s4)
         | (None, s4) \<Rightarrow> (None, updateCollection (cycleState s4 = COLLECTION) progress s4))"

text \<open>
  \<^verbatim>\<open>createClouds()\<close>: the positions of the 25 sprites. Each iteration calls
  \<^verbatim>\<open>Math.random()\<close> four times, for x, y, z and the scale of the sprite; \<open>k\<close> is the number
  of calls made before the loop.
\<close>

primrec createCloudsLoop :: "random_source \<Rightarrow> nat \<Rightarrow> nat \<Rightarrow> vector3 list" where
  "createCloudsLoop rand k 0 = []"
| "createCloudsLoop rand k (Suc n) =
     createCloudsLoop rand k n @
       [\<lparr>vec_x = (rand (k + 4 * n) - 0.5) * 150,
         vec_y = 30 + rand (k + 4 * n + 1) * 15,
         vec_z = (rand (k + 4 * n + 2) - 0.5) * 150\<rparr>]"



text \<open>\<^verbatim>\<open>resetSimulation()\<close>: the parameters, the cycle, and the stage display.\<close>

definition resetSimulation :: "simulation \<Rightarrow> simulation" where
  "resetSimulation s =
     updateCycleStage (s\<lparr>temperature := 15, windSpeed := 10,
                         cycleState := EVAPORATION, cycleTimer := 0\<rparr>)"


text \<open>
  The specification's reading of the clock, in its own words: the fixed cyclic order of
  the phases, and \<open>progress() = elapsed / duration(currentPhase)\<close>.
\<close>

definition spec_phase_order :: "phase list" where
  "spec_phase_order = [EVAPORATION, CONDENSATION, PRECIPITATION, COLLECTION]"

fun index_of :: "'a \<Rightarrow> 'a list \<Rightarrow> nat" where
  "index_of a [] = 0"
| "index_of a (b # bs) = (if a = b then 0 else Suc (index_of a bs))"

definition spec_next_phase :: "phase \<Rightarrow> phase" where
  "spec_next_phase p =
     spec_phase_order ! ((index_of p spec_phase_order + 1) mod length spec_phase_order)"

definition spec_progress :: "simulation \<Rightarrow> real" where
  "spec_progress s = cycleTimer s / cycleDurations (cycleState s)"

text \<open>A small concrete simulation: two clouds, two evaporation particles, one raindrop.\<close>

definition example_simulation :: simulation where
  "example_simulation =
     \<lparr>temperature = 15, windSpeed = 10, cycleState = EVAPORATION, cycleTimer = 0,
      stageShown = [EVAPORATION],
      clouds = [\<lparr>vec_x = 10, vec_y = 35, vec_z = - 20\<rparr>, \<lparr>vec_x = - 40, vec_y = 40, vec_z = 5\<rparr>],
      cloudOpacity = 0.6,
      evaporationPositions = [3, 0.5, 4, - 7, 10, 2],
      evaporationVelocities = [0.01, 0.2, - 0.02, 0.03, 0.25, 0.04],
      evaporationOpacity = 0,
      rainPositions = [1, 0.5, 2],
      rainVelocities = [0, - 0.75, 0],
      rainOpacity = 0,
      runoffPositions = [0, 0, 0],
      randomCalls = 0\<rparr>"

section \<open>The third variant (class WaterCycleSimulation with climateParams)\<close>

text \<open>
  This is the variant whose class keeps \<^verbatim>\<open>climateParams\<close>, \<^verbatim>\<open>trees\<close>, \<^verbatim>\<open>iceCaps\<close> and four
  lists of particle systems, and has no cycle timer. Names that the first variant already
  uses carry the suffix \<open>1\<close>. (The second variant of the repository, the ES-module one, is
  not part of this development.)
\<close>

record climateParams =
  temperature1 :: real
  temperatureChange :: real
  precipitationIntensity :: real
  evaporationRate :: real
  iceMelting :: real
  seaLevel :: real

text \<open>
  A \<^verbatim>\<open>THREE.Points\<close> object with its \<^verbatim>\<open>userData\<close>: the position array and the velocities,
  lifetimes and maximal lifetime stored beside it (a precipitation system also keeps its
  cloud).
\<close>

record points =
  positions :: buffer
  velocities :: buffer
  lifetimes :: buffer
  maxLifetime :: real
  cloud :: "vector3 option"

record iceCap =
  ice_scale :: real
  ice_opacity :: real

record simulation1 =
  climate :: climateParams
  animationSpeed :: real
  isPlaying :: bool
  trees :: "vector3 list"
  iceCaps :: "iceCap list"
  sunEmissiveIntensity :: real
  particles_evaporation :: "points list"
  particles_transpiration :: "points list"
  particles_precipitation :: "points list"
  particles_runoff :: "points list"
  randomCalls1 :: nat

text \<open>The object literal of the constructor, which \<^verbatim>\<open>resetSimulation\<close> repeats.\<close>

definition initialClimateParams :: climateParams where
  "initialClimateParams =
     \<lparr>temperature1 = 15, temperatureChange = 0, precipitationIntensity = 1.0,
      evaporationRate = 1.0, iceMelting = 0, seaLevel = 0\<rparr>"

text \<open>
  The state after the constructor, given what \<^verbatim>\<open>init\<close> built from random draws: the trees,
  the ice caps and the particle systems.
\<close>

definition newSimulation1 ::
  "vector3 list \<Rightarrow> iceCap list \<Rightarrow> points list \<Rightarrow> points list \<Rightarrow> points list \<Rightarrow> points list
     \<Rightarrow> nat \<Rightarrow> simulation1" where
  "newSimulation1 ts ice evapSystems transpSystems precipSystems runoffSystems calls =
     \<lparr>climate = initialClimateParams, animationSpeed = 1.0, isPlaying = True,
      trees = ts, iceCaps = ice, sunEmissiveIntensity = 0.5,
      particles_evaporation = evapSystems, particles_transpiration = transpSystems,
      particles_precipitation = precipSystems, particles_runoff = runoffSystems,
      randomCalls1 = calls\<rparr>"

text \<open>\<^verbatim>\<open>updateTemperatureDisplay\<close> and \<^verbatim>\<open>updateIceCapSize\<close>, without the page's text.\<close>

definition updateTemperatureDisplay :: "simulation1 \<Rightarrow> simulation1" where
  "updateTemperatureDisplay s =
     (let intensity = 0.5 + temperatureChange (climate s) / 10
      in s\<lparr>sunEmissiveIntensity := max 0.3 (min 1.0 intensity)\<rparr>)"

definition updateIceCapSize :: "simulation1 \<Rightarrow> simulation1" where
  "updateIceCapSize s =
     s\<lparr>iceCaps :=
         map (\<lambda>ice. (let baseScale = 1 - iceMelting (climate s) * 0.3
                      in ice\<lparr>ice_scale := max 0.2 baseScale,
                             ice_opacity := max 0.3 (0.9 - iceMelting (climate s) * 0.3)\<rparr>))
           (iceCaps s)\<rparr>"

text \<open>
  The listeners of \<^verbatim>\<open>setupControls\<close>; the argument of a slider listener is
  \<^verbatim>\<open>parseFloat(e.target.value)\<close>. \<^verbatim>\<open>updateClimateEffects\<close> and \<^verbatim>\<open>updateProcessIndicator\<close> only
  write to the page.
\<close>

definition temperatureSliderInput :: "real \<Rightarrow> simulation1 \<Rightarrow> simulation1" where
  "temperatureSliderInput v s =
     (let c1 = (climate s)\<lparr>temperatureChange := v\<rparr>;
          c2 = c1\<lparr>temperature1 := 15 + temperatureChange c1\<rparr>
      in updateTemperatureDisplay (s\<lparr>climate := c2\<rparr>))"

definition precipitationSliderInput :: "real \<Rightarrow> simulation1 \<Rightarrow> simulation1" where
  "precipitationSliderInput v s = s\<lparr>climate := (climate s)\<lparr>precipitationIntensity := v\<rparr>\<rparr>"

definition evaporationSliderInput :: "real \<Rightarrow> simulation1 \<Rightarrow> simulation1" where
  "evaporationSliderInput v s = s\<lparr>climate := (climate s)\<lparr>evaporationRate := v\<rparr>\<rparr>"

definition iceMeltingSliderInput :: "real \<Rightarrow> simulation1 \<Rightarrow> simulation1" where
  "iceMeltingSliderInput v s =
     updateIceCapSize (s\<lparr>climate := (climate s)\<lparr>iceMelting := v\<rparr>\<rparr>)"

definition togglePlayPause :: "simulation1 \<Rightarrow> simulation1" where
  "togglePlayPause s = s\<lparr>isPlaying := \<not> isPlaying s\<rparr>"

definition resetSimulation1 :: "simulation1 \<Rightarrow> simulation1" where
  "resetSimulation1 s =
     updateIceCapSize (updateTemperatureDisplay
       (s\<lparr>climate :=
            \<lparr>temperature1 = 15, temperatureChange = 0, precipitationIntensity = 1.0,
             evaporationRate = 1.0, iceMelting = 0, seaLevel = 0\<rparr>\<rparr>))"

definition loadClimateScenario :: "simulation1 \<Rightarrow> simulation1" where
  "loadClimateScenario s =
     (let c1 = (climate s)\<lparr>temperatureChange := 3.5\<rparr>;
          c2 = c1\<lparr>temperature1 := 18.5\<rparr>;
          c3 = c2\<lparr>precipitationIntensity := 1.5\<rparr>;
          c4 = c3\<lparr>evaporationRate := 1.7\<rparr>;
          c5 = c4\<lparr>iceMelting := 1.5\<rparr>
      in updateIceCapSize (updateTemperatureDisplay (s\<lparr>climate := c5\<rparr>)))"

text \<open>What the user can do to the controls, and a session of such actions in order.\<close>

datatype control_event =
    TemperatureSlider real
  | PrecipitationSlider real
  | EvaporationSlider real
  | IceMeltingSlider real
  | PlayPauseButton
  | ResetButton
  | ScenarioButton

fun control :: "control_event \<Rightarrow> simulation1 \<Rightarrow> simulation1" where
  "control (TemperatureSlider v) s = temperatureSliderInput v s"
| "control (PrecipitationSlider v) s = precipitationSliderInput v s"
| "control (EvaporationSlider v) s = evaporationSliderInput v s"
| "control (IceMeltingSlider v) s = iceMeltingSliderInput v s"
| "control PlayPauseButton s = togglePlayPause s"
| "control ResetButton s = resetSimulation1 s"
| "control ScenarioButton s = loadClimateScenario s"

fun controls :: "control_event list \<Rightarrow> simulation1 \<Rightarrow> simulation1" where
  "controls [] s = s"
| "controls (e # es) s = controls es (control e s)"

text \<open>\<^verbatim>\<open>getTerrainHeight(x, z)\<close>, the height used for trees, ice caps, rain and runoff.\<close>

definition getTerrainHeight :: "real \<Rightarrow> real \<Rightarrow> real" where
  "getTerrainHeight x z =
     (let height0 = 0;
          height1 = height0 + sin (x * 0.1) * cos (z * 0.1) * 8;
          height2 = height1 + sin (x * 0.05) * cos (z * 0.05) * 15;
          height3 = (if \<bar>x\<bar> < 20 \<and> \<bar>z\<bar> < 20 then height2 * 0.3 else height2)
      in max height3 (- 2))"

text \<open>
  The body of the loop of \<^verbatim>\<open>createTerrain\<close> at array offset \<open>i\<close>: the value it stores in
  \<^verbatim>\<open>vertices[i + 1]\<close> for a vertex with \<^verbatim>\<open>x = vertices[i]\<close> and \<^verbatim>\<open>z = vertices[i + 2]\<close>, where
  \<open>r\<close> is the value of its call of \<^verbatim>\<open>Math.random()\<close>.
\<close>

definition terrainVertexHeight :: "real \<Rightarrow> real \<Rightarrow> real \<Rightarrow> real" where
  "terrainVertexHeight x z r =
     (let height0 = 0;
          height1 = height0 + sin (x * 0.1) * cos (z * 0.1) * 8;
          height2 = height1 + sin (x * 0.05) * cos (z * 0.05) * 15;
          height3 = height2 + r * 2;
          height4 = (if \<bar>x\<bar> < 20 \<and> \<bar>z\<bar> < 20 then height3 * 0.3 else height3)
      in max height4 (- 2))"

text \<open>
  \<^verbatim>\<open>for (let i = 0; i < vertices.length; i += 3)\<close>: the n-th iteration works at offset
  \<open>3 * n\<close> and makes the n-th call of \<^verbatim>\<open>Math.random()\<close> of the loop; there are
  \<open>(length + 2) div 3\<close> iterations.
\<close>

primrec createTerrainLoop :: "random_source \<Rightarrow> nat \<Rightarrow> nat \<Rightarrow> buffer \<Rightarrow> buffer" where
  "createTerrainLoop rand calls 0 vertices = vertices"
| "createTerrainLoop rand calls (Suc n) vertices =
     (let vs = createTerrainLoop rand calls n vertices;
          i = 3 * n;
          x = vs ! i;
          z = vs ! (i + 2)
      in vs[i + 1 := terrainVertexHeight x z (rand (calls + n))])"

definition createTerrain :: "random_source \<Rightarrow> nat \<Rightarrow> buffer \<Rightarrow> buffer" where
  "createTerrain rand calls vertices =
     createTerrainLoop rand calls ((length vertices + 2) div 3) vertices"

section \<open>Properties of the cycle state machine\<close>

lemma evaporationLoop_length [simp]:
  "length (evaporationLoop temp vel n pos) = length pos"
  by (induction n) (simp_all add: evaporationParticle_def setY_def Let_def)

lemma updateEvaporation_clock [simp]:
  "cycleState (updateEvaporation a p s) = cycleState s"
  "cycleTimer (updateEvaporation a p s) = cycleTimer s"
  "stageShown (updateEvaporation a p s) = stageShown s"
  by (simp_all add: updateEvaporation_def Let_def)

lemma updateCondensation_clock [simp]:
  "cycleState (updateCondensation a p s) = cycleState s"
  "cycleTimer (updateCondensation a p s) = cycleTimer s"
  "stageShown (updateCondensation a p s) = stageShown s"
  by (simp_all add: updateCondensation_def)

lemma rainRecycle_clock:
  "cycleState (snd (rainRecycle rand i s)) = cycleState s \<and>
   cycleTimer (snd (rainRecycle rand i s)) = cycleTimer s \<and>
   stageShown (snd (rainRecycle rand i s)) = stageShown s"
  by (simp add: rainRecycle_def Let_def split: option.splits)

lemma rainParticle_clock:
  "cycleState (snd (rainParticle raycast rand i s)) = cycleState s \<and>
   cycleTimer (snd (rainParticle raycast rand i s)) = cycleTimer s \<and>
   stageShown (snd (rainParticle raycast rand i s)) = stageShown s"
  by (simp add: rainParticle_def Let_def rainRecycle_clock)

lemma rainLoop_clock:
  "cycleState (snd (rainLoop raycast rand n s)) = cycleState s \<and>
   cycleTimer (snd (rainLoop raycast rand n s)) = cycleTimer s \<and>
   stageShown (snd (rainLoop raycast rand n s)) = stageShown s"
proof (induction n)
  case 0
  show ?case by simp
next
  case (Suc n)
  obtain e s' where r: "rainLoop raycast rand n s = (e, s')"
    by (cases "rainLoop raycast rand n s")
  with Suc have keep: "cycleState s' = cycleState s" "cycleTimer s' = cycleTimer s"
    "stageShown s' = stageShown s"
    by simp_all
  show ?case
  proof (cases e)
    case None
    with r keep rainParticle_clock [of raycast rand n s'] show ?thesis by simp
  next
    case (Some err)
    with r keep show ?thesis by simp
  qed
qed

lemma updatePrecipitation_clock:
  "cycleState (snd (updatePrecipitation raycast rand a p s)) = cycleState s \<and>
   cycleTimer (snd (updatePrecipitation raycast rand a p s)) = cycleTimer s \<and>
   stageShown (snd (updatePrecipitation raycast rand a p s)) = stageShown s"
proof (cases a)
  case True
  then show ?thesis
    using rainLoop_clock [of raycast rand "count (rainPositions s)"
        "s\<lparr>rainOpacity := sin (p * pi) * 0.7\<rparr>"]
    by (simp add: updatePrecipitation_def Let_def)
next
  case False
  then show ?thesis by (simp add: updatePrecipitation_def Let_def)
qed

lemma updateWaterCycle_clock:
  "cycleState (snd (updateWaterCycle raycast rand delta s)) = cycleState (fst (cycleClock delta s)) \<and>
   cycleTimer (snd (updateWaterCycle raycast rand delta s)) = cycleTimer (fst (cycleClock delta s)) \<and>
   stageShown (snd (updateWaterCycle raycast rand delta s)) = stageShown (fst (cycleClock delta s))"
proof -
  obtain s1 pr where c: "cycleClock delta s = (s1, pr)"
    by (cases "cycleClock delta s")
  define s3 where "s3 = updateCondensation (cycleState s1 = CONDENSATION) pr
      (updateEvaporation (cycleState s1 = EVAPORATION) pr s1)"
  obtain e s4 where u: "updatePrecipitation raycast rand (cycleState s3 = PRECIPITATION) pr s3 = (e, s4)"
    by (cases "updatePrecipitation raycast rand (cycleState s3 = PRECIPITATION) pr s3")
  have s3: "cycleState s3 = cycleState s1" "cycleTimer s3 = cycleTimer s1" "stageShown s3 = stageShown s1"
    by (simp_all add: s3_def)
  from updatePrecipitation_clock [of raycast rand "cycleState s3 = PRECIPITATION" pr s3] u s3
  have s4: "cycleState s4 = cycleState s1" "cycleTimer s4 = cycleTimer s1" "stageShown s4 = stageShown s1"
    by simp_all
  have "snd (updateWaterCycle raycast rand delta s) =
      (case e of Some x \<Rightarrow> s4 | None \<Rightarrow> updateCollection (cycleState s4 = COLLECTION) pr s4)"
    using c u s3 by (simp add: updateWaterCycle_def s3_def Let_def split: option.splits)
  then show ?thesis
    using c s4 by (simp add: updateCollection_def split: option.splits)
qed

lemma spec_next_phase_simps [simp]:
  "spec_next_phase EVAPORATION = CONDENSATION"
  "spec_next_phase CONDENSATION = PRECIPITATION"
  "spec_next_phase PRECIPITATION = COLLECTION"
  "spec_next_phase COLLECTION = EVAPORATION"
  by (simp_all add: spec_next_phase_def spec_phase_order_def)

lemma cycleClock_advance:
  "cycleTimer s + delta > cycleDurations (cycleState s) \<Longrightarrow>
   fst (cycleClock delta s) =
     s\<lparr>cycleTimer := 0, cycleState := spec_next_phase (cycleState s),
       stageShown := stageShown s @ [spec_next_phase (cycleState s)]\<rparr>"
  by (cases "cycleState s") (simp_all add: cycleClock_def updateCycleStage_def Let_def)

lemma cycleClock_stay:
  "\<not> cycleTimer s + delta > cycleDurations (cycleState s) \<Longrightarrow>
   fst (cycleClock delta s) = s\<lparr>cycleTimer := cycleTimer s + delta\<rparr>"
  by (simp add: cycleClock_def Let_def)

text \<open>
  C1. In \<^verbatim>\<open>updateWaterCycle\<close>, for every call with \<open>delta \<ge> 0\<close>, \<open>delta\<close> is added to the
  timer; if the sum exceeds the duration of the current phase, the timer is reset to 0,
  the state becomes the next phase of the fixed cyclic order and one notification of the
  new stage is emitted; otherwise the timer keeps the sum, and the phase and the
  notifications stay as they were.
\<close>

theorem advance_adds_then_transitions:
  assumes "0 \<le> delta"
  shows "(let s' = snd (updateWaterCycle raycast rand delta s) in
     (cycleTimer s + delta > cycleDurations (cycleState s) \<longrightarrow>
        cycleTimer s' = 0 \<and> cycleState s' = spec_next_phase (cycleState s) \<and>
        stageShown s' = stageShown s @ [spec_next_phase (cycleState s)]) \<and>
     (\<not> cycleTimer s + delta > cycleDurations (cycleState s) \<longrightarrow>
        cycleTimer s' = cycleTimer s + delta \<and> cycleState s' = cycleState s \<and>
        stageShown s' = stageShown s))"
  using updateWaterCycle_clock [of raycast rand delta s]
    cycleClock_advance [of s delta] cycleClock_stay [of s delta]
  by (simp add: Let_def)

theorem advance_adds_then_transitions_witness:
  "(0::real) \<le> 16 \<and>
   cycleTimer (snd (updateWaterCycle (\<lambda>x z. [0]) (\<lambda>k. 1 / 2) 16 example_simulation)) = 0 \<and>
   cycleState (snd (updateWaterCycle (\<lambda>x z. [0]) (\<lambda>k. 1 / 2) 16 example_simulation)) = CONDENSATION \<and>
   stageShown (snd (updateWaterCycle (\<lambda>x z. [0]) (\<lambda>k. 1 / 2) 16 example_simulation))
     = [EVAPORATION, CONDENSATION]"
  using advance_adds_then_transitions [where delta = 16 and s = example_simulation and raycast = "\<lambda>x z. [0]" and rand = "\<lambda>k. 1 / 2"]
  by (simp add: example_simulation_def Let_def)

text \<open>
  C2, as the code has it. A tick of 16 seconds on a phase that lasts 15 seconds moves to the
  next phase of the cyclic order and emits exactly one notification, and the timer is
  reset to 0: the residual \<open>16 - 15 = 1\<close> is dropped.
\<close>

theorem tick_16_on_15_resets_elapsed:
  assumes "cycleDurations (cycleState s) = 15" and "0 \<le> cycleTimer s"
  shows "cycleState (snd (updateWaterCycle raycast rand 16 s)) = spec_next_phase (cycleState s) \<and>
     cycleTimer (snd (updateWaterCycle raycast rand 16 s)) = 0 \<and>
     stageShown (snd (updateWaterCycle raycast rand 16 s)) = stageShown s @ [spec_next_phase (cycleState s)]"
  using assms updateWaterCycle_clock [of raycast rand 16 s] cycleClock_advance [of s 16]
  by simp

theorem tick_16_on_15_resets_elapsed_witness:
  "cycleDurations (cycleState example_simulation) = 15 \<and> 0 \<le> cycleTimer example_simulation \<and>
   cycleState (snd (updateWaterCycle (\<lambda>x z. [0]) (\<lambda>k. 1 / 2) 16 example_simulation)) = CONDENSATION \<and>
   length (stageShown (snd (updateWaterCycle (\<lambda>x z. [0]) (\<lambda>k. 1 / 2) 16 example_simulation)))
     = length (stageShown example_simulation) + 1"
  using tick_16_on_15_resets_elapsed [where s = example_simulation and raycast = "\<lambda>x z. [0]" and rand = "\<lambda>k. 1 / 2"]
  by (simp add: example_simulation_def)

text \<open>
  C2 as stated fails: from the start of the evaporation phase, the timer after a tick of
  16 seconds is 0, not 1.
\<close>

theorem tick_16_on_15_residual_counterexample:
  "cycleDurations (cycleState example_simulation) = 15 \<and>
   cycleTimer example_simulation = 0 \<and>
   cycleTimer (snd (updateWaterCycle (\<lambda>x z. [0]) (\<lambda>k. 1 / 2) 16 example_simulation)) = 0 \<and>
   cycleTimer (snd (updateWaterCycle (\<lambda>x z. [0]) (\<lambda>k. 1 / 2) 16 example_simulation)) \<noteq> 1"
proof -
  have "cycleTimer example_simulation + 16 > cycleDurations (cycleState example_simulation)"
    by (simp add: example_simulation_def)
  then have "cycleTimer (fst (cycleClock 16 example_simulation)) = 0"
    by (simp add: cycleClock_advance)
  then have "cycleTimer (snd (updateWaterCycle (\<lambda>x z. [0]) (\<lambda>k. 1 / 2) 16 example_simulation)) = 0"
    using updateWaterCycle_clock [of "\<lambda>x z. [0]" "\<lambda>k. 1 / 2" 16 example_simulation] by simp
  then show ?thesis by (simp add: example_simulation_def)
qed

lemma cycleDurations_pos: "0 < cycleDurations p"
  by (cases p) simp_all





text \<open>
  C4, as the code has it. After every call with \<open>delta \<ge> 0\<close>, from a timer that is not
  negative, the progress lies in the closed interval from 0 to 1, and the value of the local
  \<^verbatim>\<open>progress\<close> of the call is the timer divided by the duration of the phase the call ends in.
\<close>

theorem progress_in_closed_unit_interval:
  assumes "0 \<le> delta" and "0 \<le> cycleTimer s"
  shows "(let s' = snd (updateWaterCycle raycast rand delta s) in
     0 \<le> spec_progress s' \<and> spec_progress s' \<le> 1 \<and>
     snd (cycleClock delta s) = spec_progress s')"
proof (cases "cycleTimer s + delta > cycleDurations (cycleState s)")
  case True
  then have "fst (cycleClock delta s) =
     s\<lparr>cycleTimer := 0, cycleState := spec_next_phase (cycleState s),
       stageShown := stageShown s @ [spec_next_phase (cycleState s)]\<rparr>"
    by (rule cycleClock_advance)
  moreover from True have "snd (cycleClock delta s) = 0"
    by (simp add: cycleClock_def Let_def updateCycleStage_def)
  ultimately show ?thesis
    using updateWaterCycle_clock [of raycast rand delta s]
    by (simp add: Let_def spec_progress_def)
next
  case False
  then have f: "fst (cycleClock delta s) = s\<lparr>cycleTimer := cycleTimer s + delta\<rparr>"
    by (rule cycleClock_stay)
  from False have p: "snd (cycleClock delta s) = (cycleTimer s + delta) / cycleDurations (cycleState s)"
    by (simp add: cycleClock_def Let_def)
  have "0 < cycleDurations (cycleState s)" by (rule cycleDurations_pos)
  with False assms have "0 \<le> (cycleTimer s + delta) / cycleDurations (cycleState s)"
    "(cycleTimer s + delta) / cycleDurations (cycleState s) \<le> 1"
    by simp_all
  with f p show ?thesis
    using updateWaterCycle_clock [of raycast rand delta s]
    by (simp add: Let_def spec_progress_def)
qed

theorem progress_in_closed_unit_interval_witness:
  "(0::real) \<le> 15 \<and> 0 \<le> cycleTimer example_simulation \<and>
   spec_progress (snd (updateWaterCycle (\<lambda>x z. [0]) (\<lambda>k. 1 / 2) 15 example_simulation)) \<le> 1 \<and>
   0 \<le> spec_progress (snd (updateWaterCycle (\<lambda>x z. [0]) (\<lambda>k. 1 / 2) 15 example_simulation))"
  using progress_in_closed_unit_interval [where delta = 15 and s = example_simulation
      and raycast = "\<lambda>x z. [0]" and rand = "\<lambda>k. 1 / 2"]
  by (simp add: example_simulation_def Let_def)

text \<open>
  C4 as stated fails at the boundary: a step of exactly 15 seconds from the start of the
  evaporation phase does not exceed the duration, so no transition happens and the progress
  is 1.
\<close>

theorem progress_reaches_one_counterexample:
  "(0::real) \<le> 15 \<and>
   spec_progress (snd (updateWaterCycle (\<lambda>x z. [0]) (\<lambda>k. 1 / 2) 15 example_simulation)) = 1 \<and>
   \<not> spec_progress (snd (updateWaterCycle (\<lambda>x z. [0]) (\<lambda>k. 1 / 2) 15 example_simulation)) < 1"
proof -
  have le: "\<not> cycleTimer example_simulation + 15 > cycleDurations (cycleState example_simulation)"
    by (simp add: example_simulation_def)
  have "cycleState (snd (updateWaterCycle (\<lambda>x z. [0]) (\<lambda>k. 1 / 2) 15 example_simulation)) = EVAPORATION"
    "cycleTimer (snd (updateWaterCycle (\<lambda>x z. [0]) (\<lambda>k. 1 / 2) 15 example_simulation)) = 15"
    using updateWaterCycle_clock [of "\<lambda>x z. [0]" "\<lambda>k. 1 / 2" 15 example_simulation]
      cycleClock_stay [OF le]
    by (simp_all add: example_simulation_def)
  then show ?thesis by (simp add: spec_progress_def)
qed

section \<open>The recycle of a raindrop and the terrain height\<close>

lemma randomElement_empty [simp]: "randomElement rand k [] = None"
  by (simp add: randomElement_def)

lemma rainRecycle_no_clouds:
  "clouds s = [] \<Longrightarrow> fst (rainRecycle rand i s) = Some TypeError"
  by (simp add: rainRecycle_def Let_def)



lemma createCloudsLoop_length [simp]: "length (createCloudsLoop rand k n) = n"
  by (induction n) simp_all












text \<open>
  C6 on the code. \<^verbatim>\<open>createTerrain\<close> adds \<^verbatim>\<open>Math.random() * 2\<close> to the height before the valley
  scaling, and \<^verbatim>\<open>getTerrainHeight\<close> does not: for the vertex at \<open>x = 0\<close>, \<open>z = 0\<close> and a random
  value of 1/2 the mesh gets the height 3/10 while the query returns 0.
\<close>

theorem mesh_height_differs_from_query:
  "createTerrain (\<lambda>k. 1 / 2) 0 [0, 0, 0] = [0, 3 / 10, 0] \<and>
   getTerrainHeight 0 0 = 0 \<and>
   terrainVertexHeight 0 0 (1 / 2) \<noteq> getTerrainHeight 0 0"
  by (simp add: createTerrain_def getTerrainHeight_def terrainVertexHeight_def Let_def)

section \<open>Reset and the climate parameters\<close>

lemma updateIceCapSize_keeps:
  "climate (updateIceCapSize s) = climate s"
  "particles_evaporation (updateIceCapSize s) = particles_evaporation s"
  "particles_transpiration (updateIceCapSize s) = particles_transpiration s"
  "particles_precipitation (updateIceCapSize s) = particles_precipitation s"
  "particles_runoff (updateIceCapSize s) = particles_runoff s"
  by (simp_all add: updateIceCapSize_def)

lemma updateTemperatureDisplay_keeps:
  "climate (updateTemperatureDisplay s) = climate s"
  "particles_evaporation (updateTemperatureDisplay s) = particles_evaporation s"
  "particles_transpiration (updateTemperatureDisplay s) = particles_transpiration s"
  "particles_precipitation (updateTemperatureDisplay s) = particles_precipitation s"
  "particles_runoff (updateTemperatureDisplay s) = particles_runoff s"
  by (simp_all add: updateTemperatureDisplay_def Let_def)

text \<open>
  C8, as the code has it. \<^verbatim>\<open>resetSimulation\<close> of the first variant sets the cycle to the
  evaporation phase with timer 0, the parameters to their defaults, and shows the stage;
  \<^verbatim>\<open>resetSimulation\<close> of the third variant sets the climate parameters to their initial
  values. Neither touches a particle pool: every position array is what it was before.
\<close>

theorem reset_restores_clock_and_parameters_only:
  "cycleState (resetSimulation s) = EVAPORATION \<and>
   cycleTimer (resetSimulation s) = 0 \<and>
   temperature (resetSimulation s) = 15 \<and>
   windSpeed (resetSimulation s) = 10 \<and>
   stageShown (resetSimulation s) = stageShown s @ [EVAPORATION] \<and>
   evaporationPositions (resetSimulation s) = evaporationPositions s \<and>
   rainPositions (resetSimulation s) = rainPositions s \<and>
   runoffPositions (resetSimulation s) = runoffPositions s \<and>
   climate (resetSimulation1 s1) = initialClimateParams \<and>
   particles_evaporation (resetSimulation1 s1) = particles_evaporation s1 \<and>
   particles_transpiration (resetSimulation1 s1) = particles_transpiration s1 \<and>
   particles_precipitation (resetSimulation1 s1) = particles_precipitation s1 \<and>
   particles_runoff (resetSimulation1 s1) = particles_runoff s1"
  by (simp add: resetSimulation_def updateCycleStage_def resetSimulation1_def
      updateIceCapSize_keeps updateTemperatureDisplay_keeps initialClimateParams_def)

text \<open>
  C8 as stated fails: after a reset the evaporation pool still holds its positions, among
  them a particle at height 10, outside the spawn height 1/2 of the pool.
\<close>

theorem reset_keeps_particles_counterexample:
  "evaporationPositions (resetSimulation example_simulation) = [3, 1 / 2, 4, - 7, 10, 2] \<and>
   getY (evaporationPositions (resetSimulation example_simulation)) 1 = 10 \<and>
   getY (evaporationPositions (resetSimulation example_simulation)) 1 \<noteq> 1 / 2"
  by (simp add: resetSimulation_def updateCycleStage_def example_simulation_def getY_def)

lemma control_invariant:
  "temperature1 (climate s) = 15 + temperatureChange (climate s) \<Longrightarrow>
   temperature1 (climate (control e s)) = 15 + temperatureChange (climate (control e s))"
  by (cases e)
    (simp_all add: temperatureSliderInput_def precipitationSliderInput_def
      evaporationSliderInput_def iceMeltingSliderInput_def togglePlayPause_def
      resetSimulation1_def loadClimateScenario_def Let_def
      updateIceCapSize_keeps updateTemperatureDisplay_keeps)

lemma controls_invariant:
  "temperature1 (climate s) = 15 + temperatureChange (climate s) \<Longrightarrow>
   temperature1 (climate (controls es s)) = 15 + temperatureChange (climate (controls es s))"
  by (induction es arbitrary: s) (simp_all add: control_invariant)

text \<open>
  C10. In the third variant, \<open>temperature = 15 + temperatureChange\<close> holds after the
  constructor, is preserved by the temperature slider, by \<^verbatim>\<open>resetSimulation\<close>, by
  \<^verbatim>\<open>loadClimateScenario\<close> and by every other control, and so holds after every session of
  control events.
\<close>

theorem temperature_tracks_temperatureChange:
  "temperature1 (climate (newSimulation1 ts ice ev tr pr ru k))
     = 15 + temperatureChange (climate (newSimulation1 ts ice ev tr pr ru k)) \<and>
   (temperature1 (climate s) = 15 + temperatureChange (climate s) \<longrightarrow>
      temperature1 (climate (temperatureSliderInput v s))
        = 15 + temperatureChange (climate (temperatureSliderInput v s)) \<and>
      temperature1 (climate (resetSimulation1 s))
        = 15 + temperatureChange (climate (resetSimulation1 s)) \<and>
      temperature1 (climate (loadClimateScenario s))
        = 15 + temperatureChange (climate (loadClimateScenario s)) \<and>
      temperature1 (climate (control e s)) = 15 + temperatureChange (climate (control e s))) \<and>
   temperature1 (climate (controls es (newSimulation1 ts ice ev tr pr ru k)))
     = 15 + temperatureChange (climate (controls es (newSimulation1 ts ice ev tr pr ru k)))"
proof -
  have init: "temperature1 (climate (newSimulation1 ts ice ev tr pr ru k))
     = 15 + temperatureChange (climate (newSimulation1 ts ice ev tr pr ru k))"
    by (simp add: newSimulation1_def initialClimateParams_def)
  have step: "temperature1 (climate (control e s)) = 15 + temperatureChange (climate (control e s))"
    if "temperature1 (climate s) = 15 + temperatureChange (climate s)" for e
    using that by (rule control_invariant)
  from step [of "TemperatureSlider v"] step [of ResetButton] step [of ScenarioButton] step [of e]
    init controls_invariant [OF init, of es]
  show ?thesis by simp
qed

theorem temperature_tracks_temperatureChange_witness:
  "temperature1 (climate (newSimulation1 [] [] [] [] [] [] 0))
     = 15 + temperatureChange (climate (newSimulation1 [] [] [] [] [] [] 0)) \<and>
   temperature1 (climate (loadClimateScenario (newSimulation1 [] [] [] [] [] [] 0))) = 37 / 2 \<and>
   temperatureChange (climate (loadClimateScenario (newSimulation1 [] [] [] [] [] [] 0))) = 7 / 2 \<and>
   temperature1 (climate (controls [TemperatureSlider 2, PrecipitationSlider 2, ScenarioButton,
       IceMeltingSlider 1, TemperatureSlider (- 3)] (newSimulation1 [] [] [] [] [] [] 0))) = 12"
  using temperature_tracks_temperatureChange [where s = "newSimulation1 [] [] [] [] [] [] 0"
      and ts = "[]" and ice = "[]" and ev = "[]" and tr = "[]" and pr = "[]" and ru = "[]" and k = 0
      and v = 2 and e = ScenarioButton
      and es = "[TemperatureSlider 2, PrecipitationSlider 2, ScenarioButton,
       IceMeltingSlider 1, TemperatureSlider (- 3)]"]
  by (simp add: newSimulation1_def initialClimateParams_def loadClimateScenario_def Let_def
      updateIceCapSize_keeps updateTemperatureDisplay_keeps temperatureSliderInput_def
      precipitationSliderInput_def iceMeltingSliderInput_def)

section \<open>The evaporation update of the first variant\<close>

lemma stride_distinct:
  "(i::nat) * 3 \<noteq> n * 3 + 1" "i * 3 + 2 \<noteq> n * 3 + 1"
  "i * 3 + 1 \<noteq> n * 3" "i * 3 + 1 \<noteq> n * 3 + 2"
  "i * 3 + 2 \<noteq> n * 3" "i * 3 \<noteq> n * 3 + 2"
  by presburger+

lemma stride_y_mod: "((i::nat) * 3 + 1) mod 3 = 1"
  by presburger

lemma setY_getX [simp]: "getX (setY a n v) i = getX a i"
  using stride_distinct(1) [of i n] by (simp add: getX_def setY_def del: add_Suc_right One_nat_def)

lemma setY_getZ [simp]: "getZ (setY a n v) i = getZ a i"
  using stride_distinct(2) [of i n] by (simp add: getZ_def setY_def del: add_Suc_right One_nat_def)

lemma evaporationParticle_xz:
  "getX (evaporationParticle temp vel n pos) i = getX pos i"
  "getZ (evaporationParticle temp vel n pos) i = getZ pos i"
  by (simp_all add: evaporationParticle_def Let_def)

lemma evaporationLoop_xz:
  "getX (evaporationLoop temp vel n pos) i = getX pos i \<and>
   getZ (evaporationLoop temp vel n pos) i = getZ pos i"
  by (induction n) (simp_all add: evaporationParticle_xz)

lemma nth_beyond:
  "length xs = length ys \<Longrightarrow> length xs \<le> n \<Longrightarrow> xs ! n = ys ! n"
proof (induction xs ys arbitrary: n rule: list_induct2)
  case Nil
  show ?case by simp
next
  case (Cons x xs y ys)
  then obtain m where "n = Suc m" by (cases n) auto
  with Cons show ?case by simp
qed

lemma clearXZ_y: "clearXZ a ! (i * 3 + 1) = a ! (i * 3 + 1)"
proof (cases "i * 3 + 1 < length a")
  case True
  then show ?thesis using stride_y_mod [of i] by (simp add: clearXZ_def del: One_nat_def)
next
  case False
  then show ?thesis by (intro nth_beyond) (simp_all add: clearXZ_def)
qed

lemma evaporationLoop_clearXZ:
  "evaporationLoop temp (clearXZ vel) n pos = evaporationLoop temp vel n pos"
  using clearXZ_y [of vel] by (induction n) (simp_all add: evaporationParticle_def)

text \<open>
  C9. In the first variant, \<^verbatim>\<open>updateEvaporation\<close> leaves the x and the z coordinate of every
  particle as they were, and the horizontal velocities are never applied: the array of
  velocities is not changed, and with the x and z velocities set to 0 the update yields
  the same positions.
\<close>

theorem evaporation_moves_only_y:
  "getX (evaporationPositions (updateEvaporation isActive progress s)) i
     = getX (evaporationPositions s) i \<and>
   getZ (evaporationPositions (updateEvaporation isActive progress s)) i
     = getZ (evaporationPositions s) i \<and>
   evaporationVelocities (updateEvaporation isActive progress s) = evaporationVelocities s \<and>
   evaporationPositions (updateEvaporation isActive progress
       (s\<lparr>evaporationVelocities := clearXZ (evaporationVelocities s)\<rparr>))
     = evaporationPositions (updateEvaporation isActive progress s)"
  using evaporationLoop_xz [of "temperature s" "evaporationVelocities s"
      "count (evaporationPositions s)" "evaporationPositions s" i]
  by (simp add: updateEvaporation_def Let_def evaporationLoop_clearXZ)

end
